theory Spec2Isabelle
  imports Complex_Main "HOL-Library.AList"
begin

section \<open>Values, errors and attributes\<close>

text \<open>
  The orbit display of \<^verbatim>\<open>lcls_orbit/widgets.py\<close> is one class, \<^verbatim>\<open>OrbitDisplay\<close>.
  Its readings are Python floats or \<^verbatim>\<open>None\<close>. A float is modelled as \<open>fval\<close>: either
  not-a-number or a finite number, taken as an exact real (rounding and the infinities are
  left out). A reading is a \<open>sample\<close>: \<open>None\<close> is Python's \<^verbatim>\<open>None\<close>.
\<close>

datatype fval = NaN | Fin real

type_synonym sample = "fval option"
type_synonym device = string
type_synonym color = string

text \<open>
  The exceptions the methods can raise. \<open>SourceError\<close> stands for whatever a data source
  raises from \<^verbatim>\<open>poll()\<close>.
\<close>

datatype error =
    ValueError
  | TypeError
  | AttributeError
  | KeyError
  | IndexError
  | UnboundLocalError
  | SourceError string

text \<open>
  An instance attribute that \<^verbatim>\<open>__init__\<close> assigns only on some paths: reading it while
  \<open>Unset\<close> raises \<^verbatim>\<open>AttributeError\<close>.
\<close>

datatype 'a attr = Unset | Attr 'a

text \<open>An element of the \<^verbatim>\<open>extents\<close> list given to \<^verbatim>\<open>update_colormap\<close>: \<^verbatim>\<open>range\<close> takes integers only.\<close>

datatype pynum = PyInt int | PyFloat real

section \<open>The device table and the display state\<close>

text \<open>
  \<^verbatim>\<open>table.rows\<close> and \<^verbatim>\<open>table.table_data["Z"]\<close> of a \<^verbatim>\<open>TableVariable\<close>; a dict is an association
  list in insertion order.
\<close>

record table_variable =
  rows :: "device list"
  table_data_Z :: "(device \<times> real) list"

text \<open>What \<^verbatim>\<open>self._monitor.poll()\<close> returns: one dict of readings per axis.\<close>

record poll_vals =
  vals_X :: "(device \<times> sample) list"
  vals_Y :: "(device \<times> sample) list"

text \<open>The data of the two bar sources (keys x, y, device, color).\<close>

record bar_source =
  src_x :: "real list"
  src_y :: "fval list"
  src_device :: "device list"
  src_color :: "color list"

text \<open>
  The data of the two reference-line sources: keys x and y, and a key color that only
  \<^verbatim>\<open>_reset_reference\<close> adds.
\<close>

record line_source =
  ref_x :: "real list"
  ref_y :: "fval list"
  ref_color :: "color list option"

record display =
  self_z :: "real list"
  self_monitor :: table_variable
  self_color_monitor :: "string option attr"
  self_extents :: "real list attr"
  self_color_map :: "color list attr"
  self_bar_width :: real
  self_x_source :: bar_source
  self_y_source :: bar_source
  self_collecting_reference :: bool
  self_reference_measurements_X :: "(device \<times> sample list) list"
  self_reference_measurements_Y :: "(device \<times> sample list) list"
  self_reference_n :: int
  self_reference_count :: int
  self_x_ref_source :: line_source
  self_y_ref_source :: line_source
  self_x_ref_line_color :: "color option"
  self_y_ref_line_color :: "color option"

text \<open>The arguments of \<^verbatim>\<open>__init__\<close> that reach the state (sizes and axis labels are plotting only).\<close>

record init_args =
  arg_table :: table_variable
  arg_bar_width :: "real option"
  arg_color_var :: "string option"
  arg_color_map :: "color list option"
  arg_extents :: "real list option"
  arg_reference_n :: int

section \<open>The constructor\<close>

text \<open>\<^verbatim>\<open>{row: [] for row in table.rows}\<close>: a repeated row keeps its first place.\<close>

definition empty_measurements :: "device list \<Rightarrow> (device \<times> sample list) list" where
  "empty_measurements rs = map (\<lambda>r. (r, [])) (rev (remdups (rev rs)))"

text \<open>Python's \<^verbatim>\<open>max\<close> and \<^verbatim>\<open>min\<close> of a list: \<^verbatim>\<open>ValueError\<close> on the empty one.\<close>

fun py_max :: "real list \<Rightarrow> error + real" where
  "py_max [] = Inl ValueError"
| "py_max (x # xs) = Inr (fold max xs x)"

fun py_min :: "real list \<Rightarrow> error + real" where
  "py_min [] = Inl ValueError"
| "py_min (x # xs) = Inr (fold min xs x)"

text \<open>Lines 61 to 64: a bar width of \<^verbatim>\<open>None\<close> or 0 is computed from the positions.\<close>

definition init_bar_width :: "real option \<Rightarrow> real list \<Rightarrow> error + real" where
  "init_bar_width bw zs =
     (if bw = None \<or> bw = Some 0 then
        (case py_max zs of
           Inl e \<Rightarrow> Inl e
         | Inr hi \<Rightarrow>
             (case py_min zs of
                Inl e \<Rightarrow> Inl e
              | Inr lo \<Rightarrow> Inr ((hi - lo) / (real (length zs) + 1))))
      else Inr (the bw))"

text \<open>
  Lines 49 to 59: the colour attributes are assigned only when a colour variable is given;
  the result is the monitor, the extents and the colour map.
\<close>

definition init_color ::
  "init_args \<Rightarrow> error + (string option attr \<times> real list attr \<times> color list attr)" where
  "init_color a =
     (case arg_color_var a of
        None \<Rightarrow> Inr (Unset, Unset, Unset)
      | Some cv \<Rightarrow>
          (case arg_extents a of
             None \<Rightarrow> Inl ValueError
           | Some es \<Rightarrow>
               (case arg_color_map a of
                  None \<Rightarrow> Inl ValueError
                | Some cm \<Rightarrow> Inr (Attr (Some cv), Attr es, Attr cm))))"

text \<open>Lines 157 and 158: \<^verbatim>\<open>extents[0]\<close> and \<^verbatim>\<open>extents[1]\<close> for the colour bars.\<close>

definition color_bar_bounds :: "real list option \<Rightarrow> error + (real \<times> real)" where
  "color_bar_bounds ex =
     (case ex of
        None \<Rightarrow> Inl TypeError
      | Some es \<Rightarrow> (if length es < 2 then Inl IndexError else Inr (es ! 0, es ! 1)))"

definition init :: "init_args \<Rightarrow> error + display" where
  "init a =
     (let zs = map snd (table_data_Z (arg_table a)) in
      case init_color a of
        Inl e \<Rightarrow> Inl e
      | Inr (mon, es, cm) \<Rightarrow>
          (case init_bar_width (arg_bar_width a) zs of
             Inl e \<Rightarrow> Inl e
           | Inr bw \<Rightarrow>
               (case py_min zs of
                  Inl e \<Rightarrow> Inl e
                | Inr lo \<Rightarrow>
                    (case color_bar_bounds (arg_extents a) of
                       Inl e \<Rightarrow> Inl e
                     | Inr bounds \<Rightarrow>
                         Inr \<lparr> self_z = zs,
                               self_monitor = arg_table a,
                               self_color_monitor = mon,
                               self_extents = es,
                               self_color_map = cm,
                               self_bar_width = bw,
                               self_x_source = \<lparr> src_x = [], src_y = [], src_device = [], src_color = [] \<rparr>,
                               self_y_source = \<lparr> src_x = [], src_y = [], src_device = [], src_color = [] \<rparr>,
                               self_collecting_reference = False,
                               self_reference_measurements_X = empty_measurements (rows (arg_table a)),
                               self_reference_measurements_Y = empty_measurements (rows (arg_table a)),
                               self_reference_n = arg_reference_n a,
                               self_reference_count = arg_reference_n a,
                               self_x_ref_source = \<lparr> ref_x = [], ref_y = [], ref_color = None \<rparr>,
                               self_y_ref_source = \<lparr> ref_x = [], ref_y = [], ref_color = None \<rparr>,
                               self_x_ref_line_color = None,
                               self_y_ref_line_color = None \<rparr>))))"

section \<open>Table replacement and the two buttons\<close>

definition update_table :: "display \<Rightarrow> table_variable \<Rightarrow> display" where
  "update_table st t =
     st \<lparr> self_monitor := t,
          self_z := map snd (table_data_Z t),
          self_x_ref_source := (self_x_ref_source st) \<lparr> ref_x := [], ref_y := [] \<rparr>,
          self_y_ref_source := (self_y_ref_source st) \<lparr> ref_x := [], ref_y := [] \<rparr>,
          self_reference_measurements_X := empty_measurements (rows t),
          self_reference_measurements_Y := empty_measurements (rows t) \<rparr>"

definition collect_reference :: "display \<Rightarrow> display" where
  "collect_reference st = st \<lparr> self_collecting_reference := True \<rparr>"

definition reset_reference :: "display \<Rightarrow> display" where
  "reset_reference st =
     st \<lparr> self_x_ref_source := \<lparr> ref_x = [], ref_y = [], ref_color = Some [] \<rparr>,
          self_y_ref_source := \<lparr> ref_x = [], ref_y = [], ref_color = Some [] \<rparr> \<rparr>"

section \<open>Colour binning\<close>

text \<open>
  Line 197, \<^verbatim>\<open>(np.abs(self._extents - color_val)).argmin()\<close>. \<^verbatim>\<open>argmin\<close> scans the
  differences in order and keeps the first smallest one; a not-a-number counts as the
  smallest. It raises \<^verbatim>\<open>ValueError\<close> on an empty array, and subtracting \<^verbatim>\<open>None\<close> from a
  number raises \<^verbatim>\<open>TypeError\<close>.
\<close>

fun abs_diff :: "fval \<Rightarrow> real \<Rightarrow> fval" where
  "abs_diff NaN e = NaN"
| "abs_diff (Fin v) e = Fin \<bar>e - v\<bar>"

fun smaller :: "fval \<Rightarrow> fval \<Rightarrow> bool" where
  "smaller x NaN = False"
| "smaller NaN (Fin b) = True"
| "smaller (Fin a) (Fin b) = (a < b)"

fun argmin_scan :: "fval list \<Rightarrow> nat \<Rightarrow> nat \<Rightarrow> fval \<Rightarrow> nat" where
  "argmin_scan [] i best bv = best"
| "argmin_scan (x # xs) i best bv =
     (if smaller x bv then argmin_scan xs (Suc i) i x else argmin_scan xs (Suc i) best bv)"

fun np_argmin :: "fval list \<Rightarrow> error + nat" where
  "np_argmin [] = Inl ValueError"
| "np_argmin (x # xs) = Inr (argmin_scan xs 1 0 x)"

definition color_index :: "real list \<Rightarrow> sample \<Rightarrow> error + nat" where
  "color_index es color_val =
     (if es = [] then Inl ValueError
      else case color_val of
             None \<Rightarrow> Inl TypeError
           | Some v \<Rightarrow> np_argmin (map (abs_diff v) es))"

text \<open>
  Lines 195 to 203. The result is the local \<^verbatim>\<open>color\<close> (\<open>None\<close> when the branch taken never
  binds it) and the list \<^verbatim>\<open>colors\<close>, one entry per device of \<^verbatim>\<open>vals["X"]\<close>. The colour source
  is polled only on the first branch; \<open>cpoll\<close> is what that poll gives.
\<close>

definition choose_color ::
  "display \<Rightarrow> (error + sample) \<Rightarrow> nat \<Rightarrow> error + (color option \<times> color list)" where
  "choose_color st cpoll n =
     (case self_color_monitor st of
        Unset \<Rightarrow> Inl AttributeError
      | Attr None \<Rightarrow> Inr (None, replicate n ''#695f5e'')
      | Attr (Some mon) \<Rightarrow>
          (case cpoll of
             Inl e \<Rightarrow> Inl e
           | Inr color_val \<Rightarrow>
               (case self_extents st of
                  Unset \<Rightarrow> Inl AttributeError
                | Attr es \<Rightarrow>
                    (case color_index es color_val of
                       Inl e \<Rightarrow> Inl e
                     | Inr idx \<Rightarrow>
                         (case self_color_map st of
                            Unset \<Rightarrow> Inl AttributeError
                          | Attr cm \<Rightarrow>
                              (if idx < length cm
                               then Inr (Some (cm ! idx), replicate n (cm ! idx))
                               else Inl IndexError))))))"

section \<open>The reference sampler\<close>

text \<open>
  Lines 209 to 213: each reading is appended to its device's list; a device the
  accumulator does not know raises \<^verbatim>\<open>KeyError\<close>, with the earlier appends already done.
\<close>

fun append_samples ::
  "(device \<times> sample list) list \<Rightarrow> (device \<times> sample) list \<Rightarrow>
   error option \<times> (device \<times> sample list) list" where
  "append_samples acc [] = (None, acc)"
| "append_samples acc ((d, v) # vs) =
     (case map_of acc d of
        None \<Rightarrow> (Some KeyError, acc)
      | Some ss \<Rightarrow> append_samples (AList.update d (ss @ [v]) acc) vs)"

text \<open>\<^verbatim>\<open>[x for x in samples if x != None]\<close>\<close>

fun not_none :: "sample list \<Rightarrow> fval list" where
  "not_none [] = []"
| "not_none (None # xs) = not_none xs"
| "not_none (Some v # xs) = v # not_none xs"

text \<open>\<^verbatim>\<open>np.mean\<close>: not-a-number for the empty list and whenever an element is not-a-number.\<close>

fun fadd :: "fval \<Rightarrow> fval \<Rightarrow> fval" where
  "fadd (Fin a) (Fin b) = Fin (a + b)"
| "fadd a b = NaN"

fun fdiv :: "fval \<Rightarrow> real \<Rightarrow> fval" where
  "fdiv (Fin a) n = Fin (a / n)"
| "fdiv NaN n = NaN"

definition np_mean :: "fval list \<Rightarrow> fval" where
  "np_mean xs = (if xs = [] then NaN else fdiv (foldl fadd (Fin 0) xs) (real (length xs)))"

definition device_means :: "(device \<times> sample list) list \<Rightarrow> fval list" where
  "device_means acc = map (\<lambda>(d, ss). np_mean (not_none ss)) acc"

text \<open>
  \<^verbatim>\<open>[self._z[i] for i, x in enumerate(x_mean) if not np.isnan(x)]\<close>: the position is read
  only for a kept mean, and \<^verbatim>\<open>IndexError\<close> is raised when the table has no such row.
\<close>

fun line_z :: "real list \<Rightarrow> nat \<Rightarrow> fval list \<Rightarrow> error + real list" where
  "line_z zs i [] = Inr []"
| "line_z zs i (m # ms) =
     (if m = NaN then line_z zs (Suc i) ms
      else if i < length zs then
        (case line_z zs (Suc i) ms of
           Inl e \<Rightarrow> Inl e
         | Inr r \<Rightarrow> Inr (zs ! i # r))
      else Inl IndexError)"

text \<open>Lines 220 to 222 (and 224 to 226): the positions and the means of one axis.\<close>

definition reference_curve ::
  "real list \<Rightarrow> (device \<times> sample list) list \<Rightarrow> error + (real list \<times> fval list)" where
  "reference_curve zs acc =
     (let means = device_means acc in
      case line_z zs 0 means of
        Inl e \<Rightarrow> Inl e
      | Inr lz \<Rightarrow> Inr (lz, filter (\<lambda>m. m \<noteq> NaN) means))"

definition clear_measurements :: "(device \<times> sample list) list \<Rightarrow> (device \<times> sample list) list" where
  "clear_measurements acc = map (\<lambda>(d, ss). (d, [])) acc"

text \<open>
  Lines 217 to 244, run when the countdown has reached zero. Each error leaves the state
  as the statements before it made it.
\<close>

definition finish_reference :: "display \<Rightarrow> color option \<Rightarrow> error option \<times> display" where
  "finish_reference st color =
     (let st1 = st \<lparr> self_collecting_reference := False \<rparr> in
      case reference_curve (self_z st1) (self_reference_measurements_X st1) of
        Inl e \<Rightarrow> (Some e, st1)
      | Inr (x_line_z, x_mean) \<Rightarrow>
          (case reference_curve (self_z st1) (self_reference_measurements_Y st1) of
             Inl e \<Rightarrow> (Some e, st1)
           | Inr (y_line_z, y_mean) \<Rightarrow>
               (let st2 = st1 \<lparr> self_reference_measurements_X :=
                                  clear_measurements (self_reference_measurements_X st1),
                                self_reference_measurements_Y :=
                                  clear_measurements (self_reference_measurements_Y st1),
                                self_reference_count := self_reference_n st1 \<rparr> in
                case color of
                  None \<Rightarrow> (Some UnboundLocalError, st2)
                | Some c \<Rightarrow>
                    (None,
                     st2 \<lparr> self_x_ref_line_color := Some c,
                           self_y_ref_line_color := Some c,
                           self_x_ref_source :=
                             (self_x_ref_source st2) \<lparr> ref_x := x_line_z, ref_y := x_mean \<rparr>,
                           self_y_ref_source :=
                             (self_y_ref_source st2) \<lparr> ref_x := y_line_z, ref_y := y_mean \<rparr> \<rparr>))))"

text \<open>Lines 206 to 244: nothing happens unless a reference is being collected.\<close>

definition collect_step :: "display \<Rightarrow> poll_vals \<Rightarrow> color option \<Rightarrow> error option \<times> display" where
  "collect_step st vals color =
     (if \<not> self_collecting_reference st then (None, st)
      else
        (let st1 = st \<lparr> self_reference_count := self_reference_count st - 1 \<rparr> in
         case append_samples (self_reference_measurements_X st1) (vals_X vals) of
           (Some e, accX) \<Rightarrow> (Some e, st1 \<lparr> self_reference_measurements_X := accX \<rparr>)
         | (None, accX) \<Rightarrow>
             (let st2 = st1 \<lparr> self_reference_measurements_X := accX \<rparr> in
              case append_samples (self_reference_measurements_Y st2) (vals_Y vals) of
                (Some e, accY) \<Rightarrow> (Some e, st2 \<lparr> self_reference_measurements_Y := accY \<rparr>)
              | (None, accY) \<Rightarrow>
                  (let st3 = st2 \<lparr> self_reference_measurements_Y := accY \<rparr> in
                   if self_reference_count st3 = 0 then finish_reference st3 color
                   else (None, st3)))))"

section \<open>The update cycle\<close>

text \<open>\<^verbatim>\<open>np.array(..., dtype=np.float64)\<close> turns \<^verbatim>\<open>None\<close> into not-a-number.\<close>

fun to_float64 :: "sample \<Rightarrow> fval" where
  "to_float64 None = NaN"
| "to_float64 (Some v) = v"

text \<open>
  Lines 247 to 267. \<^verbatim>\<open>min(x)\<close> and \<^verbatim>\<open>min(y)\<close> raise \<^verbatim>\<open>ValueError\<close> on an axis without
  devices; the zero line they decide is plotting only.
\<close>

definition publish :: "display \<Rightarrow> poll_vals \<Rightarrow> color list \<Rightarrow> error option \<times> display" where
  "publish st vals colors =
     (let devices = map fst (vals_X vals);
          x = map (to_float64 \<circ> snd) (vals_X vals);
          y = map (to_float64 \<circ> snd) (vals_Y vals) in
      if x = [] then (Some ValueError, st)
      else if y = [] then (Some ValueError, st)
      else
        (None,
         st \<lparr> self_x_source :=
                \<lparr> src_x = self_z st, src_y = x, src_device = devices, src_color = colors \<rparr>,
              self_y_source :=
                \<lparr> src_x = self_z st, src_y = y, src_device = devices, src_color = colors \<rparr> \<rparr>))"

text \<open>
  \<^verbatim>\<open>update()\<close>. \<open>vpoll\<close> is what \<^verbatim>\<open>self._monitor.poll()\<close> gives in this cycle and \<open>cpoll\<close>
  what \<^verbatim>\<open>self._color_monitor.poll()\<close> gives; the result is the exception raised, if any, and
  the state the call leaves behind.
\<close>

definition update ::
  "display \<Rightarrow> (error + poll_vals) \<Rightarrow> (error + sample) \<Rightarrow> error option \<times> display" where
  "update st vpoll cpoll =
     (case vpoll of
        Inl e \<Rightarrow> (Some e, st)
      | Inr vals \<Rightarrow>
          (case choose_color st cpoll (length (vals_X vals)) of
             Inl e \<Rightarrow> (Some e, st)
           | Inr (color, colors) \<Rightarrow>
               (case collect_step st vals color of
                  (Some e, st1) \<Rightarrow> (Some e, st1)
                | (None, st1) \<Rightarrow> publish st1 vals colors)))"

section \<open>Colour reconfiguration\<close>

text \<open>\<^verbatim>\<open>range(start, stop, step)\<close> for a positive step.\<close>

definition py_range :: "int \<Rightarrow> int \<Rightarrow> int \<Rightarrow> int list" where
  "py_range start stop step =
     map (\<lambda>k. start + int k * step) [0 ..< nat ((stop - start + step - 1) div step)]"

text \<open>
  \<^verbatim>\<open>update_colormap\<close>: the colour map is assigned first, then \<^verbatim>\<open>extents[0]\<close> and
  \<^verbatim>\<open>extents[1]\<close> are read (\<^verbatim>\<open>IndexError\<close>), \<^verbatim>\<open>range\<close> refuses a float (\<^verbatim>\<open>TypeError\<close>) and a
  step of zero (\<^verbatim>\<open>ValueError\<close>).
\<close>

definition update_colormap ::
  "display \<Rightarrow> string \<Rightarrow> color list \<Rightarrow> pynum list \<Rightarrow> error option \<times> display" where
  "update_colormap st color_var cmap extents =
     (let st1 = st \<lparr> self_color_map := Attr cmap \<rparr> in
      if length extents < 2 then (Some IndexError, st1)
      else
        (case (extents ! 0, extents ! 1) of
           (PyInt lo, PyInt hi) \<Rightarrow>
             (if length cmap = 0 then (Some ValueError, st1)
              else
                (None,
                 st1 \<lparr> self_extents := Attr (map real_of_int (py_range lo hi (int (length cmap)))),
                       self_color_monitor := Attr (Some color_var) \<rparr>))
         | _ \<Rightarrow> (Some TypeError, st1)))"

section \<open>Concrete tables, arguments and readings\<close>

text \<open>
  The inputs the scenarios below run on: a table of three devices at z = 0, 1 and 2, a
  constructor call with a colour signal over three bins and a capture target \<open>n\<close>, the same
  call without a colour signal, and the readings of two cycles in which the second device
  reports nothing on the X axis.
\<close>

definition three_devices :: table_variable where
  "three_devices =
     \<lparr> rows = [''d0'', ''d1'', ''d2''],
       table_data_Z = [(''d0'', 0), (''d1'', 1), (''d2'', 2)] \<rparr>"

definition example_args :: "int \<Rightarrow> init_args" where
  "example_args n =
     \<lparr> arg_table = three_devices,
       arg_bar_width = None,
       arg_color_var = Some ''signal'',
       arg_color_map = Some [''red'', ''green'', ''blue''],
       arg_extents = Some [0, 1, 2],
       arg_reference_n = n \<rparr>"

definition no_color_args :: init_args where
  "no_color_args = (example_args 2) \<lparr> arg_color_var := None, arg_color_map := None \<rparr>"

definition cycle1 :: poll_vals where
  "cycle1 =
     \<lparr> vals_X = [(''d0'', Some (Fin 1)), (''d1'', None), (''d2'', Some (Fin 3))],
       vals_Y = [(''d0'', Some (Fin 0)), (''d1'', Some (Fin 0)), (''d2'', Some (Fin 0))] \<rparr>"

definition cycle2 :: poll_vals where
  "cycle2 =
     \<lparr> vals_X = [(''d0'', Some (Fin 3)), (''d1'', None), (''d2'', Some (Fin 5))],
       vals_Y = [(''d0'', Some (Fin 0)), (''d1'', Some (Fin 0)), (''d2'', Some (Fin 0))] \<rparr>"

text \<open>A table without devices, and the readings a data source gives for it.\<close>

definition no_devices :: table_variable where
  "no_devices = \<lparr> rows = [], table_data_Z = [] \<rparr>"

definition no_readings :: poll_vals where
  "no_readings = \<lparr> vals_X = [], vals_Y = [] \<rparr>"

text \<open>
  The display built with a capture target of 2, after the reference button and one
  update: a capture is in progress, with one cycle collected and one to go.
\<close>

definition capturing_display :: display where
  "capturing_display =
     snd (update (collect_reference (projr (init (example_args 2))))
            (Inr cycle1) (Inr (Some (Fin 0))))"

section \<open>Colour binning picks the nearest extent\<close>

text \<open>
  The scan keeps, at every position, the first smallest difference seen so far; run to the
  end of the list it returns the first smallest difference of the whole list.
\<close>

lemma argmin_scan_first_min:
  "i \<le> length xs \<Longrightarrow> best < i \<Longrightarrow> (\<forall>j<i. xs ! best \<le> xs ! j) \<Longrightarrow>
   (\<forall>j<best. xs ! best < xs ! j) \<Longrightarrow>
   argmin_scan (map Fin (drop i xs)) i best (Fin (xs ! best)) = r \<Longrightarrow>
   r < length xs \<and> (\<forall>j<length xs. xs ! r \<le> xs ! j) \<and> (\<forall>j<r. xs ! r < xs ! j)"
proof (induction "length xs - i" arbitrary: i best)
  case 0
  then have "i = length xs" by simp
  with 0 show ?case by simp
next
  case (Suc n)
  then have lt: "i < length xs" by simp
  then have dr: "drop i xs = xs ! i # drop (Suc i) xs"
    by (simp add: Cons_nth_drop_Suc)
  show ?case
  proof (cases "xs ! i < xs ! best")
    case True
    have r: "argmin_scan (map Fin (drop (Suc i) xs)) (Suc i) i (Fin (xs ! i)) = r"
      using Suc.prems(5) dr True by simp
    have a: "\<forall>j<Suc i. xs ! i \<le> xs ! j"
      using True Suc.prems(3) by (metis less_Suc_eq less_eq_real_def order_less_le_trans)
    have b: "\<forall>j<i. xs ! i < xs ! j"
      using True Suc.prems(3) by (meson order_less_le_trans)
    show ?thesis
      using Suc.hyps(1) [of "Suc i" i] Suc.hyps(2) lt a b r by simp
  next
    case False
    have r: "argmin_scan (map Fin (drop (Suc i) xs)) (Suc i) best (Fin (xs ! best)) = r"
      using Suc.prems(5) dr False by simp
    have a: "\<forall>j<Suc i. xs ! best \<le> xs ! j"
      using False Suc.prems(3) by (simp add: less_Suc_eq)
    show ?thesis
      using Suc.hyps(1) [of "Suc i" best] Suc.hyps(2) lt a r Suc.prems(2,4) by simp
  qed
qed

text \<open>
  Claim C3. For a number as signal value and a non-empty extents array, the index computed
  on line 197 is an index of the array whose entry has the least absolute difference to
  the value, and every entry before it is strictly farther away: ties go to the lowest
  index. The witness is the spec's scenario, extents [0, 1, 2] and value 1.6 giving
  index 2, and the tie of 15 between 10 and 20 giving index 1.
\<close>

theorem color_index_nearest_first:
  "es \<noteq> [] \<Longrightarrow>
   \<exists>i. color_index es (Some (Fin v)) = Inr i \<and> i < length es \<and>
       (\<forall>j<length es. \<bar>es ! i - v\<bar> \<le> \<bar>es ! j - v\<bar>) \<and>
       (\<forall>j<i. \<bar>es ! i - v\<bar> < \<bar>es ! j - v\<bar>)"
proof -
  assume ne: "es \<noteq> []"
  define xs where "xs = map (\<lambda>e. \<bar>e - v\<bar>) es"
  from ne obtain e rest where es: "es = e # rest" by (cases es) auto
  define r where "r = argmin_scan (map Fin (drop 1 xs)) 1 0 (Fin (xs ! 0))"
  have ad: "abs_diff (Fin v) = (\<lambda>e. Fin \<bar>e - v\<bar>)"
    by (rule ext) simp
  have ci: "color_index es (Some (Fin v)) = Inr r"
    by (simp add: color_index_def es r_def xs_def ad comp_def)
  have len: "1 \<le> length xs" by (simp add: xs_def es)
  have "r < length xs \<and> (\<forall>j<length xs. xs ! r \<le> xs ! j) \<and> (\<forall>j<r. xs ! r < xs ! j)"
    by (rule argmin_scan_first_min [of 1 xs 0]) (use len r_def in auto)
  then have "r < length es \<and> (\<forall>j<length es. \<bar>es ! r - v\<bar> \<le> \<bar>es ! j - v\<bar>) \<and>
       (\<forall>j<r. \<bar>es ! r - v\<bar> < \<bar>es ! j - v\<bar>)"
    by (auto simp: xs_def)
  with ci show ?thesis by blast
qed

theorem color_index_nearest_first_witness:
  "[0, 1, 2] \<noteq> ([] :: real list) \<and> color_index [0, 1, 2] (Some (Fin (16 / 10))) = Inr 2
   \<and> color_index [0, 10, 20] (Some (Fin 15)) = Inr 1"
  using color_index_nearest_first [of "[0, 1, 2]" "16 / 10"]
  by (simp add: color_index_def)

section \<open>The example displays, evaluated\<close>

lemma init_example_args:
  "init (example_args n) =
     Inr \<lparr> self_z = [0, 1, 2],
           self_monitor = three_devices,
           self_color_monitor = Attr (Some ''signal''),
           self_extents = Attr [0, 1, 2],
           self_color_map = Attr [''red'', ''green'', ''blue''],
           self_bar_width = 1 / 2,
           self_x_source = \<lparr> src_x = [], src_y = [], src_device = [], src_color = [] \<rparr>,
           self_y_source = \<lparr> src_x = [], src_y = [], src_device = [], src_color = [] \<rparr>,
           self_collecting_reference = False,
           self_reference_measurements_X = [(''d0'', []), (''d1'', []), (''d2'', [])],
           self_reference_measurements_Y = [(''d0'', []), (''d1'', []), (''d2'', [])],
           self_reference_n = n,
           self_reference_count = n,
           self_x_ref_source = \<lparr> ref_x = [], ref_y = [], ref_color = None \<rparr>,
           self_y_ref_source = \<lparr> ref_x = [], ref_y = [], ref_color = None \<rparr>,
           self_x_ref_line_color = None,
           self_y_ref_line_color = None \<rparr>"
  by (simp add: example_args_def three_devices_def init_def init_color_def init_bar_width_def
      color_bar_bounds_def empty_measurements_def Let_def)

lemma capturing_display_eq:
  "capturing_display =
     \<lparr> self_z = [0, 1, 2],
       self_monitor = three_devices,
       self_color_monitor = Attr (Some ''signal''),
       self_extents = Attr [0, 1, 2],
       self_color_map = Attr [''red'', ''green'', ''blue''],
       self_bar_width = 1 / 2,
       self_x_source =
         \<lparr> src_x = [0, 1, 2], src_y = [Fin 1, NaN, Fin 3],
           src_device = [''d0'', ''d1'', ''d2''], src_color = [''red'', ''red'', ''red''] \<rparr>,
       self_y_source =
         \<lparr> src_x = [0, 1, 2], src_y = [Fin 0, Fin 0, Fin 0],
           src_device = [''d0'', ''d1'', ''d2''], src_color = [''red'', ''red'', ''red''] \<rparr>,
       self_collecting_reference = True,
       self_reference_measurements_X =
         [(''d0'', [Some (Fin 1)]), (''d1'', [None]), (''d2'', [Some (Fin 3)])],
       self_reference_measurements_Y =
         [(''d0'', [Some (Fin 0)]), (''d1'', [Some (Fin 0)]), (''d2'', [Some (Fin 0)])],
       self_reference_n = 2,
       self_reference_count = 1,
       self_x_ref_source = \<lparr> ref_x = [], ref_y = [], ref_color = None \<rparr>,
       self_y_ref_source = \<lparr> ref_x = [], ref_y = [], ref_color = None \<rparr>,
       self_x_ref_line_color = None,
       self_y_ref_line_color = None \<rparr>"
  by (simp add: capturing_display_def init_example_args collect_reference_def update_def
      choose_color_def color_index_def collect_step_def cycle1_def publish_def Let_def)

lemma update_capturing_display:
  "update capturing_display (Inr cycle2) (Inr (Some (Fin 0))) =
    (None,
     \<lparr> self_z = [0, 1, 2],
       self_monitor = three_devices,
       self_color_monitor = Attr (Some ''signal''),
       self_extents = Attr [0, 1, 2],
       self_color_map = Attr [''red'', ''green'', ''blue''],
       self_bar_width = 1 / 2,
       self_x_source =
         \<lparr> src_x = [0, 1, 2], src_y = [Fin 3, NaN, Fin 5],
           src_device = [''d0'', ''d1'', ''d2''], src_color = [''red'', ''red'', ''red''] \<rparr>,
       self_y_source =
         \<lparr> src_x = [0, 1, 2], src_y = [Fin 0, Fin 0, Fin 0],
           src_device = [''d0'', ''d1'', ''d2''], src_color = [''red'', ''red'', ''red''] \<rparr>,
       self_collecting_reference = False,
       self_reference_measurements_X = [(''d0'', []), (''d1'', []), (''d2'', [])],
       self_reference_measurements_Y = [(''d0'', []), (''d1'', []), (''d2'', [])],
       self_reference_n = 2,
       self_reference_count = 2,
       self_x_ref_source = \<lparr> ref_x = [0, 2], ref_y = [Fin 2, Fin 4], ref_color = None \<rparr>,
       self_y_ref_source = \<lparr> ref_x = [0, 1, 2], ref_y = [Fin 0, Fin 0, Fin 0], ref_color = None \<rparr>,
       self_x_ref_line_color = Some ''red'',
       self_y_ref_line_color = Some ''red'' \<rparr>)"
  by (simp add: capturing_display_eq update_def
      choose_color_def color_index_def collect_step_def cycle2_def publish_def
      finish_reference_def reference_curve_def device_means_def np_mean_def
      clear_measurements_def Let_def)

lemma init_no_color_args:
  "init no_color_args =
     Inr \<lparr> self_z = [0, 1, 2],
           self_monitor = three_devices,
           self_color_monitor = Unset,
           self_extents = Unset,
           self_color_map = Unset,
           self_bar_width = 1 / 2,
           self_x_source = \<lparr> src_x = [], src_y = [], src_device = [], src_color = [] \<rparr>,
           self_y_source = \<lparr> src_x = [], src_y = [], src_device = [], src_color = [] \<rparr>,
           self_collecting_reference = False,
           self_reference_measurements_X = [(''d0'', []), (''d1'', []), (''d2'', [])],
           self_reference_measurements_Y = [(''d0'', []), (''d1'', []), (''d2'', [])],
           self_reference_n = 2,
           self_reference_count = 2,
           self_x_ref_source = \<lparr> ref_x = [], ref_y = [], ref_color = None \<rparr>,
           self_y_ref_source = \<lparr> ref_x = [], ref_y = [], ref_color = None \<rparr>,
           self_x_ref_line_color = None,
           self_y_ref_line_color = None \<rparr>"
  by (simp add: no_color_args_def example_args_def three_devices_def init_def init_color_def
      init_bar_width_def color_bar_bounds_def empty_measurements_def Let_def)

section \<open>The reset button\<close>

text \<open>
  Claim C4, as stated, fails. The claim has \<^verbatim>\<open>_reset_reference\<close> clear every accumulator;
  the method only assigns the two reference sources. On the display with a capture in
  progress the samples of the first cycle are all still there after the reset.
\<close>

theorem reset_reference_keeps_measurements_counterexample:
  "self_collecting_reference capturing_display \<and>
   self_reference_measurements_X (reset_reference capturing_display) =
     [(''d0'', [Some (Fin 1)]), (''d1'', [None]), (''d2'', [Some (Fin 3)])]"
  by (simp add: capturing_display_eq reset_reference_def)

text \<open>
  Claim C4, amended. In any state \<^verbatim>\<open>_reset_reference\<close> empties the positions and values of
  both published reference curves and leaves the accumulators of both axes, the countdown,
  the target and the is-capturing flag as they were.
\<close>

theorem reset_reference_clears_curve_only:
  "ref_x (self_x_ref_source (reset_reference st)) = [] \<and>
   ref_y (self_x_ref_source (reset_reference st)) = [] \<and>
   ref_x (self_y_ref_source (reset_reference st)) = [] \<and>
   ref_y (self_y_ref_source (reset_reference st)) = [] \<and>
   self_reference_measurements_X (reset_reference st) = self_reference_measurements_X st \<and>
   self_reference_measurements_Y (reset_reference st) = self_reference_measurements_Y st \<and>
   self_reference_count (reset_reference st) = self_reference_count st \<and>
   self_reference_n (reset_reference st) = self_reference_n st \<and>
   self_collecting_reference (reset_reference st) = self_collecting_reference st"
  by (simp add: reset_reference_def)

section \<open>Replacing the device table\<close>

text \<open>
  Claim C5, as stated, fails. \<^verbatim>\<open>update_table\<close> assigns neither the flag nor the countdown: on
  the display with a capture in progress (countdown 1 of 2) the flag is still set and the
  countdown still 1 after the table is replaced, and the next update completes the capture,
  publishing a curve made of that one cycle.
\<close>

theorem update_table_keeps_capturing_counterexample:
  "self_collecting_reference capturing_display \<and>
   self_reference_count capturing_display = 1 \<and>
   self_reference_n capturing_display = 2 \<and>
   self_collecting_reference (update_table capturing_display three_devices) \<and>
   self_reference_count (update_table capturing_display three_devices) = 1 \<and>
   fst (update (update_table capturing_display three_devices) (Inr cycle2) (Inr (Some (Fin 0)))) = None \<and>
   self_x_ref_source
     (snd (update (update_table capturing_display three_devices) (Inr cycle2) (Inr (Some (Fin 0))))) =
     \<lparr> ref_x = [0, 2], ref_y = [Fin 3, Fin 5], ref_color = None \<rparr>"
  by (simp add: capturing_display_eq update_table_def three_devices_def empty_measurements_def
      update_def choose_color_def color_index_def collect_step_def cycle2_def publish_def
      finish_reference_def reference_curve_def device_means_def np_mean_def
      clear_measurements_def Let_def)

lemma concat_empty_measurements: "concat (map snd (empty_measurements rs)) = []"
  by (simp add: empty_measurements_def comp_def)

text \<open>
  Claim C5, amended. Replacing the device table discards every accumulated sample (the
  accumulators of both axes hold the rows of the new table, each with an empty sequence),
  empties the positions and values of both published reference curves and takes the
  positions from the new table; the countdown, the target and the is-capturing flag are
  left as they were.
\<close>

theorem update_table_discards_samples_only:
  "concat (map snd (self_reference_measurements_X (update_table st t))) = [] \<and>
   concat (map snd (self_reference_measurements_Y (update_table st t))) = [] \<and>
   map fst (self_reference_measurements_X (update_table st t)) = rev (remdups (rev (rows t))) \<and>
   map fst (self_reference_measurements_Y (update_table st t)) = rev (remdups (rev (rows t))) \<and>
   ref_x (self_x_ref_source (update_table st t)) = [] \<and>
   ref_y (self_x_ref_source (update_table st t)) = [] \<and>
   ref_x (self_y_ref_source (update_table st t)) = [] \<and>
   ref_y (self_y_ref_source (update_table st t)) = [] \<and>
   self_z (update_table st t) = map snd (table_data_Z t) \<and>
   self_reference_count (update_table st t) = self_reference_count st \<and>
   self_reference_n (update_table st t) = self_reference_n st \<and>
   self_collecting_reference (update_table st t) = self_collecting_reference st"
  by (simp add: update_table_def concat_empty_measurements)
     (simp add: empty_measurements_def comp_def)

section \<open>The capture target is not validated\<close>

text \<open>
  Claim C6, as stated, fails. The constructor stores \<^verbatim>\<open>reference_n\<close> without looking at it:
  a target of 0 and a target of -3 both construct a display.
\<close>

theorem init_accepts_nonpositive_reference_n_counterexample:
  "arg_reference_n (example_args 0) = 0 \<and> \<not> isl (init (example_args 0)) \<and>
   self_reference_n (projr (init (example_args 0))) = 0 \<and>
   arg_reference_n (example_args (- 3)) = - 3 \<and> \<not> isl (init (example_args (- 3))) \<and>
   self_reference_count (projr (init (example_args (- 3)))) = - 3"
  by (simp add: init_example_args) (simp add: example_args_def)

lemma fst_publish:
  "fst (publish st vals colors) =
     (if vals_X vals = [] \<or> vals_Y vals = [] then Some ValueError else None)"
  by (simp add: publish_def Let_def)

lemma fst_finish_reference_n:
  "fst (finish_reference (st \<lparr> self_reference_n := n \<rparr>) c) = fst (finish_reference st c)"
  by (simp add: finish_reference_def Let_def split: sum.splits prod.splits option.splits)

lemma fst_collect_step_reference_n:
  "fst (collect_step (st \<lparr> self_reference_n := n \<rparr>) vals c) = fst (collect_step st vals c)"
  by (auto simp: collect_step_def finish_reference_def Let_def
      split: prod.splits option.splits sum.splits)

lemma choose_color_reference_n:
  "choose_color (st \<lparr> self_reference_n := n \<rparr>) cp k = choose_color st cp k"
  by (simp add: choose_color_def split: attr.splits option.splits sum.splits)

lemma fst_update:
  "fst (update st (Inr vals) cp) =
     (case choose_color st cp (length (vals_X vals)) of
        Inl e \<Rightarrow> Some e
      | Inr (c, cs) \<Rightarrow>
          (case fst (collect_step st vals c) of
             Some e \<Rightarrow> Some e
           | None \<Rightarrow> if vals_X vals = [] \<or> vals_Y vals = [] then Some ValueError else None))"
  by (auto simp: update_def fst_publish split: sum.splits prod.splits option.splits)

lemma fst_update_reference_n:
  "fst (update (st \<lparr> self_reference_n := n \<rparr>) vp cp) = fst (update st vp cp)"
proof (cases vp)
  case (Inl e)
  then show ?thesis by (simp add: update_def)
next
  case (Inr vals)
  then show ?thesis
    by (simp only: fst_update choose_color_reference_n fst_collect_step_reference_n)
qed

text \<open>
  Claim C6, amended. No capture target is rejected: whether the constructor fails does not
  depend on \<^verbatim>\<open>reference_n\<close>, a display that is constructed has the given number, zero and
  negative ones included, as its target and as its countdown, and whether \<^verbatim>\<open>update()\<close>
  raises does not depend on the target either.
\<close>

theorem reference_n_is_not_checked:
  "isl (init (a \<lparr> arg_reference_n := n \<rparr>)) = isl (init a) \<and>
   (init (a \<lparr> arg_reference_n := n \<rparr>) = Inr st \<longrightarrow>
      self_reference_n st = n \<and> self_reference_count st = n) \<and>
   fst (update (st' \<lparr> self_reference_n := n \<rparr>) vp cp) = fst (update st' vp cp)"
proof (intro conjI)
  show "isl (init (a \<lparr> arg_reference_n := n \<rparr>)) = isl (init a)"
    by (auto simp: init_def init_color_def Let_def split: sum.splits option.splits)
  show "init (a \<lparr> arg_reference_n := n \<rparr>) = Inr st \<longrightarrow>
      self_reference_n st = n \<and> self_reference_count st = n"
    by (auto simp: init_def Let_def split: sum.splits)
  show "fst (update (st' \<lparr> self_reference_n := n \<rparr>) vp cp) = fst (update st' vp cp)"
    by (rule fst_update_reference_n)
qed

theorem reference_n_is_not_checked_witness:
  "init ((example_args 2) \<lparr> arg_reference_n := 0 \<rparr>) = Inr (projr (init (example_args 0))) \<and>
   self_reference_n (projr (init (example_args 0))) = 0 \<and>
   self_reference_count (projr (init (example_args 0))) = 0"
  using reference_n_is_not_checked
      [where a = "example_args 2" and n = 0 and st = "projr (init (example_args 0))"]
  by (simp add: init_example_args) (simp add: example_args_def init_example_args [unfolded example_args_def])

section \<open>Colour reconfiguration compares no lengths\<close>

lemma py_range_0_10_3: "py_range 0 10 3 = [0, 3, 6, 9]"
  by (simp add: py_range_def upt_rec)

text \<open>
  Claim C7, as stated, fails. \<^verbatim>\<open>update_colormap\<close> with three colours and the two extents
  0 and 10 succeeds, although 3 is not 2, and the extents it stores are those of
  \<^verbatim>\<open>range(0, 10, 3)\<close>: four entries for three colours.
\<close>

theorem update_colormap_no_length_check_counterexample:
  "length [''a'', ''b'', ''c''] \<noteq> length [PyInt 0, PyInt 10] \<and>
   fst (update_colormap capturing_display ''signal'' [''a'', ''b'', ''c''] [PyInt 0, PyInt 10]) = None \<and>
   self_color_map (snd (update_colormap capturing_display ''signal'' [''a'', ''b'', ''c''] [PyInt 0, PyInt 10]))
     = Attr [''a'', ''b'', ''c''] \<and>
   self_extents (snd (update_colormap capturing_display ''signal'' [''a'', ''b'', ''c''] [PyInt 0, PyInt 10]))
     = Attr [0, 3, 6, 9]"
  by (simp add: update_colormap_def py_range_0_10_3)

text \<open>
  Claim C7, amended. \<^verbatim>\<open>update_colormap\<close> does not compare the length of the colour map with
  the length of the extents: it succeeds exactly when the extents start with two integers
  and the colour map is not empty. It always stores the colour map it is given, and on
  success it tracks the new signal.
\<close>

theorem update_colormap_succeeds_iff:
  "(fst (update_colormap st cv cmap ex) = None) =
     (2 \<le> length ex \<and> (\<exists>lo hi. ex ! 0 = PyInt lo \<and> ex ! 1 = PyInt hi) \<and> cmap \<noteq> []) \<and>
   self_color_map (snd (update_colormap st cv cmap ex)) = Attr cmap \<and>
   (fst (update_colormap st cv cmap ex) = None \<longrightarrow>
      self_color_monitor (snd (update_colormap st cv cmap ex)) = Attr (Some cv))"
  by (auto simp: update_colormap_def Let_def split: pynum.splits)

theorem update_colormap_succeeds_iff_witness:
  "fst (update_colormap capturing_display ''other'' [''a'', ''b'', ''c''] [PyInt 0, PyInt 10]) = None \<and>
   self_color_monitor (snd (update_colormap capturing_display ''other'' [''a'', ''b'', ''c''] [PyInt 0, PyInt 10]))
     = Attr (Some ''other'')"
  using update_colormap_succeeds_iff [of capturing_display "''other''" "[''a'', ''b'', ''c'']" "[PyInt 0, PyInt 10]"]
  by simp

section \<open>Updating without a colour signal\<close>

text \<open>
  Claim C8, evaluated on the code. A display constructed without a colour variable has no
  attribute \<^verbatim>\<open>_color_monitor\<close>, so the test on line 195 raises \<^verbatim>\<open>AttributeError\<close> before
  the default colour of the else branch is reached; the update publishes nothing.
\<close>

theorem update_without_color_var_raises:
  "arg_color_var no_color_args = None \<and> \<not> isl (init no_color_args) \<and>
   update (projr (init no_color_args)) (Inr cycle1) (Inr None) =
     (Some AttributeError, projr (init no_color_args))"
  by (simp add: init_no_color_args update_def choose_color_def)
     (simp add: no_color_args_def)

section \<open>The constructor reads two extents\<close>

text \<open>
  Claim C10. Without a colour variable the constructor still needs extents: with
  \<^verbatim>\<open>extents = None\<close> it fails, and whenever it succeeds the extents are a list of at least
  two entries.
\<close>

theorem init_needs_extents:
  "arg_color_var a = None \<Longrightarrow>
     (arg_extents a = None \<longrightarrow> isl (init a)) \<and>
     (arg_extents a = None \<and> table_data_Z (arg_table a) \<noteq> [] \<longrightarrow> init a = Inl TypeError) \<and>
     (\<not> isl (init a) \<longrightarrow> (\<exists>es. arg_extents a = Some es \<and> 2 \<le> length es))"
proof (intro conjI impI)
  assume "arg_color_var a = None" and "arg_extents a = None"
  then show "isl (init a)"
    by (auto simp: init_def init_color_def color_bar_bounds_def Let_def split: sum.splits)
next
  assume c: "arg_color_var a = None"
    and "arg_extents a = None \<and> table_data_Z (arg_table a) \<noteq> []"
  then have e: "arg_extents a = None" and z: "map snd (table_data_Z (arg_table a)) \<noteq> []"
    by simp_all
  from z obtain lo where lo: "py_min (map snd (table_data_Z (arg_table a))) = Inr lo"
    by (cases "map snd (table_data_Z (arg_table a))") auto
  from z obtain hi where hi: "py_max (map snd (table_data_Z (arg_table a))) = Inr hi"
    by (cases "map snd (table_data_Z (arg_table a))") auto
  have "\<exists>bw. init_bar_width (arg_bar_width a) (map snd (table_data_Z (arg_table a))) = Inr bw"
    unfolding init_bar_width_def lo hi
    by (cases "arg_bar_width a = None \<or> arg_bar_width a = Some 0") simp_all
  then obtain bw where
    bw: "init_bar_width (arg_bar_width a) (map snd (table_data_Z (arg_table a))) = Inr bw" ..
  show "init a = Inl TypeError"
    by (simp add: init_def init_color_def color_bar_bounds_def Let_def c e lo bw)
next
  assume "arg_color_var a = None" and "\<not> isl (init a)"
  then show "\<exists>es. arg_extents a = Some es \<and> 2 \<le> length es"
    by (auto simp: init_def init_color_def color_bar_bounds_def Let_def
        split: sum.splits option.splits if_splits)
qed

theorem init_needs_extents_witness:
  "arg_color_var no_color_args = None \<and> \<not> isl (init no_color_args) \<and>
   arg_extents no_color_args = Some [0, 1, 2] \<and>
   arg_color_var (no_color_args \<lparr> arg_extents := None \<rparr>) = None \<and>
   arg_extents (no_color_args \<lparr> arg_extents := None \<rparr>) = None \<and>
   init (no_color_args \<lparr> arg_extents := None \<rparr>) = Inl TypeError"
  using init_needs_extents [of no_color_args]
    init_needs_extents [of "no_color_args \<lparr> arg_extents := None \<rparr>"]
  by (simp add: init_no_color_args)
     (simp add: no_color_args_def example_args_def three_devices_def)

section \<open>The reference curve\<close>

text \<open>
  The positions read by \<open>line_z\<close> depend on the table only at the rows of the kept means;
  so a row whose mean is not-a-number can be taken out of the table and of the means
  together without changing what is read, or whether the reading fails.
\<close>

lemma line_z_cong:
  "(\<And>j. k \<le> j \<Longrightarrow> j < k + length ms \<Longrightarrow>
        (j < length zs \<longleftrightarrow> j < length zs') \<and> (j < length zs \<longrightarrow> zs ! j = zs' ! j)) \<Longrightarrow>
   line_z zs k ms = line_z zs' k ms"
proof (induction ms arbitrary: k)
  case Nil
  show ?case by simp
next
  case (Cons m ms)
  have rest: "line_z zs (Suc k) ms = line_z zs' (Suc k) ms"
    by (rule Cons.IH) (use Cons.prems in simp)
  have here: "(k < length zs \<longleftrightarrow> k < length zs') \<and> (k < length zs \<longrightarrow> zs ! k = zs' ! k)"
    using Cons.prems [of k] by simp
  show ?case using rest here by (auto split: sum.splits)
qed

lemma line_z_shift:
  "(\<And>j. k \<le> j \<Longrightarrow> j < k + length ms \<Longrightarrow>
        (Suc j < length zs \<longleftrightarrow> j < length zs') \<and> (Suc j < length zs \<longrightarrow> zs ! Suc j = zs' ! j)) \<Longrightarrow>
   line_z zs (Suc k) ms = line_z zs' k ms"
proof (induction ms arbitrary: k)
  case Nil
  show ?case by simp
next
  case (Cons m ms)
  have rest: "line_z zs (Suc (Suc k)) ms = line_z zs' (Suc k) ms"
    by (rule Cons.IH) (use Cons.prems in simp)
  have here: "(Suc k < length zs \<longleftrightarrow> k < length zs') \<and> (Suc k < length zs \<longrightarrow> zs ! Suc k = zs' ! k)"
    using Cons.prems [of k] by simp
  show ?case using rest here by (auto split: sum.splits)
qed

lemma line_z_append:
  "line_z zs k (ms1 @ ms2) =
     (case line_z zs k ms1 of
        Inl e \<Rightarrow> Inl e
      | Inr r1 \<Rightarrow>
          (case line_z zs (k + length ms1) ms2 of
             Inl e \<Rightarrow> Inl e
           | Inr r2 \<Rightarrow> Inr (r1 @ r2)))"
proof (induction ms1 arbitrary: k)
  case Nil
  show ?case by (simp split: sum.splits)
next
  case (Cons m ms1)
  show ?case
    by (simp add: Cons.IH split: sum.splits)
qed

lemma line_z_delete:
  "line_z zs 0 (ms1 @ NaN # ms2) =
   line_z (take (length ms1) zs @ drop (Suc (length ms1)) zs) 0 (ms1 @ ms2)"
proof -
  define i where "i = length ms1"
  define zs' where "zs' = take i zs @ drop (Suc i) zs"
  have a: "line_z zs 0 ms1 = line_z zs' 0 ms1"
    by (rule line_z_cong) (auto simp: zs'_def i_def nth_append)
  have b: "line_z zs (Suc i) ms2 = line_z zs' i ms2"
    by (rule line_z_shift) (auto simp: zs'_def nth_append min_def)
  show ?thesis
    using a b by (simp add: line_z_append i_def [symmetric] zs'_def [symmetric] split: sum.splits)
qed

lemma not_none_all_missing: "\<forall>s\<in>set ss. s = None \<Longrightarrow> not_none ss = []"
  by (induction ss) auto

lemma device_means_nth:
  "i < length acc \<Longrightarrow> device_means acc ! i = np_mean (not_none (snd (acc ! i)))"
  by (simp add: device_means_def split_beta)

lemma device_means_all_missing:
  "i < length acc \<Longrightarrow> \<forall>s\<in>set (snd (acc ! i)). s = None \<Longrightarrow> device_means acc ! i = NaN"
  by (simp add: device_means_nth not_none_all_missing np_mean_def)

lemma reference_curve_delete:
  assumes "i < length acc" and "\<forall>s\<in>set (snd (acc ! i)). s = None"
  shows "reference_curve zs acc =
         reference_curve (take i zs @ drop (Suc i) zs) (take i acc @ drop (Suc i) acc)"
proof -
  define ms where "ms = device_means acc"
  have len: "i < length ms" using assms(1) by (simp add: ms_def device_means_def)
  have nan: "ms ! i = NaN" using assms by (simp add: ms_def device_means_all_missing)
  have split: "ms = take i ms @ NaN # drop (Suc i) ms"
    using len nan id_take_nth_drop by metis
  have del: "device_means (take i acc @ drop (Suc i) acc) = take i ms @ drop (Suc i) ms"
    by (simp add: ms_def device_means_def take_map drop_map)
  have lt: "length (take i ms) = i" using len by simp
  have lz: "line_z zs 0 ms = line_z (take i zs @ drop (Suc i) zs) 0 (take i ms @ drop (Suc i) ms)"
    using line_z_delete [of zs "take i ms" "drop (Suc i) ms"] split lt by simp
  have fl: "filter (\<lambda>m. m \<noteq> NaN) ms = filter (\<lambda>m. m \<noteq> NaN) (take i ms @ drop (Suc i) ms)"
    by (subst split) simp
  show ?thesis
    unfolding reference_curve_def Let_def del ms_def [symmetric]
    using lz fl by (simp split: sum.splits)
qed

lemma publish_ref_sources:
  "publish st vals colors = (e, st') \<Longrightarrow>
   self_x_ref_source st' = self_x_ref_source st \<and> self_y_ref_source st' = self_y_ref_source st \<and>
   self_collecting_reference st' = self_collecting_reference st \<and>
   self_reference_count st' = self_reference_count st \<and>
   self_reference_measurements_X st' = self_reference_measurements_X st \<and>
   self_reference_measurements_Y st' = self_reference_measurements_Y st"
  by (auto simp: publish_def Let_def split: if_splits)

lemma finish_reference_ok:
  "finish_reference st color = (None, st') \<Longrightarrow>
   reference_curve (self_z st) (self_reference_measurements_X st) =
     Inr (ref_x (self_x_ref_source st'), ref_y (self_x_ref_source st')) \<and>
   reference_curve (self_z st) (self_reference_measurements_Y st) =
     Inr (ref_x (self_y_ref_source st'), ref_y (self_y_ref_source st')) \<and>
   \<not> self_collecting_reference st' \<and>
   self_reference_count st' = self_reference_n st \<and>
   self_reference_measurements_X st' = clear_measurements (self_reference_measurements_X st) \<and>
   self_reference_measurements_Y st' = clear_measurements (self_reference_measurements_Y st)"
  by (auto simp: finish_reference_def Let_def split: sum.splits prod.splits option.splits)

lemma collect_step_completes:
  assumes "collect_step st vals color = (None, st')"
    and "self_collecting_reference st" and "self_reference_count st = 1"
  shows "fst (append_samples (self_reference_measurements_X st) (vals_X vals)) = None \<and>
         fst (append_samples (self_reference_measurements_Y st) (vals_Y vals)) = None \<and>
         finish_reference
           (st \<lparr> self_reference_count := 0,
                 self_reference_measurements_X :=
                   snd (append_samples (self_reference_measurements_X st) (vals_X vals)),
                 self_reference_measurements_Y :=
                   snd (append_samples (self_reference_measurements_Y st) (vals_Y vals)) \<rparr>)
           color = (None, st')"
  using assms
  by (auto simp: collect_step_def Let_def split: prod.splits option.splits)

lemma update_completes:
  assumes "update st (Inr vals) cpoll = (None, st')"
    and "self_collecting_reference st" and "self_reference_count st = 1"
  shows "reference_curve (self_z st)
           (snd (append_samples (self_reference_measurements_X st) (vals_X vals))) =
           Inr (ref_x (self_x_ref_source st'), ref_y (self_x_ref_source st')) \<and>
         reference_curve (self_z st)
           (snd (append_samples (self_reference_measurements_Y st) (vals_Y vals))) =
           Inr (ref_x (self_y_ref_source st'), ref_y (self_y_ref_source st')) \<and>
         \<not> self_collecting_reference st' \<and>
         self_reference_count st' = self_reference_n st"
proof -
  from assms(1) obtain color colors st1 where
    cs: "collect_step st vals color = (None, st1)" and
    pb: "publish st1 vals colors = (None, st')"
    by (auto simp: update_def split: sum.splits prod.splits option.splits)
  note fin = collect_step_completes [OF cs assms(2,3)]
  from fin have f: "finish_reference
           (st \<lparr> self_reference_count := 0,
                 self_reference_measurements_X :=
                   snd (append_samples (self_reference_measurements_X st) (vals_X vals)),
                 self_reference_measurements_Y :=
                   snd (append_samples (self_reference_measurements_Y st) (vals_Y vals)) \<rparr>)
           color = (None, st1)" by simp
  show ?thesis
    using finish_reference_ok [OF f] publish_ref_sources [OF pb] by simp
qed

text \<open>
  When the table has a position for every device, the curve is the list of the pairs
  (position, mean) in row order, without the pairs whose mean is not-a-number.
\<close>

lemma line_z_zip:
  "k + length ms \<le> length zs \<Longrightarrow>
   line_z zs k ms = Inr (map fst (filter (\<lambda>p. snd p \<noteq> NaN) (zip (drop k zs) ms)))"
proof (induction ms arbitrary: k)
  case Nil
  show ?case by simp
next
  case (Cons m ms)
  then have k: "k < length zs" by simp
  have dr: "drop k zs = zs ! k # drop (Suc k) zs"
    using k by (simp add: Cons_nth_drop_Suc)
  have ih: "line_z zs (Suc k) ms =
      Inr (map fst (filter (\<lambda>p. snd p \<noteq> NaN) (zip (drop (Suc k) zs) ms)))"
    by (rule Cons.IH) (use Cons.prems in simp)
  show ?case using k by (simp add: dr ih)
qed

lemma filter_zip_snd:
  "length ms \<le> length zs \<Longrightarrow>
   map snd (filter (\<lambda>p. snd p \<noteq> NaN) (zip zs ms)) = filter (\<lambda>m. m \<noteq> NaN) ms"
proof (induction ms arbitrary: zs)
  case Nil
  show ?case by simp
next
  case (Cons m ms)
  then obtain z zs' where zs: "zs = z # zs'" by (cases zs) auto
  with Cons show ?case by simp
qed

lemma reference_curve_zip:
  "length acc \<le> length zs \<Longrightarrow>
   reference_curve zs acc =
     Inr (map fst (filter (\<lambda>p. snd p \<noteq> NaN) (zip zs (device_means acc))),
          map snd (filter (\<lambda>p. snd p \<noteq> NaN) (zip zs (device_means acc))))"
proof -
  assume le: "length acc \<le> length zs"
  have l: "length (device_means acc) \<le> length zs"
    using le by (simp add: device_means_def)
  have "line_z zs 0 (device_means acc) =
      Inr (map fst (filter (\<lambda>p. snd p \<noteq> NaN) (zip (drop 0 zs) (device_means acc))))"
    by (rule line_z_zip) (use l in simp)
  then show ?thesis
    by (simp add: reference_curve_def Let_def filter_zip_snd [OF l])
qed

lemma append_samples_keys:
  "append_samples acc vs = (e, acc') \<Longrightarrow> map fst acc' = map fst acc"
proof (induction vs arbitrary: acc)
  case Nil
  then show ?case by simp
next
  case (Cons p vs)
  obtain d v where p: "p = (d, v)" by (cases p)
  show ?case
  proof (cases "map_of acc d")
    case None
    with Cons.prems p show ?thesis by simp
  next
    case (Some ss)
    then have "d \<in> fst ` set acc" by (rule map_of_SomeD [THEN imageI [where f = fst], simplified])
    then have keys: "map fst (AList.update d (ss @ [v]) acc) = map fst acc"
      by (simp add: update_keys)
    from Cons.prems p Some
    have "append_samples (AList.update d (ss @ [v]) acc) vs = (e, acc')" by simp
    from Cons.IH [OF this] keys show ?thesis by simp
  qed
qed

lemma append_samples_length: "length (snd (append_samples acc vs)) = length acc"
  using append_samples_keys [of acc vs "fst (append_samples acc vs)" "snd (append_samples acc vs)"]
  by (metis length_map prod.collapse)

lemma foldl_fadd_Fin: "foldl fadd (Fin a) (map Fin xs) = Fin (a + sum_list xs)"
  by (induction xs arbitrary: a) (simp_all add: add.assoc)

lemma np_mean_Fin:
  "np_mean (map Fin xs) = (if xs = [] then NaN else Fin (sum_list xs / real (length xs)))"
  by (simp add: np_mean_def foldl_fadd_Fin)

lemma not_none_filter: "map Some (not_none ss) = filter (\<lambda>s. s \<noteq> None) ss"
  by (induction ss rule: not_none.induct) simp_all

text \<open>
  Claim C2. Take an update that completes a capture window (a capture is in progress, the
  countdown is at 1 and the update succeeds), and let \<open>accX\<close> and \<open>accY\<close> be the samples
  collected for the two axes, those of this cycle included. If every sample of the device
  in row \<open>i\<close> of an axis is missing, the mean of that device is not-a-number, and the curve
  published for that axis is the curve of the table and the samples without row \<open>i\<close>: the
  device has no entry in it.
\<close>

theorem all_missing_device_dropped:
  assumes "update st (Inr vals) cpoll = (None, st')"
    and "self_collecting_reference st" and "self_reference_count st = 1"
    and "accX = snd (append_samples (self_reference_measurements_X st) (vals_X vals))"
    and "accY = snd (append_samples (self_reference_measurements_Y st) (vals_Y vals))"
  shows "(i < length accX \<and> (\<forall>s\<in>set (snd (accX ! i)). s = None) \<longrightarrow>
            device_means accX ! i = NaN \<and>
            Inr (ref_x (self_x_ref_source st'), ref_y (self_x_ref_source st')) =
              reference_curve (take i (self_z st) @ drop (Suc i) (self_z st))
                (take i accX @ drop (Suc i) accX)) \<and>
         (i < length accY \<and> (\<forall>s\<in>set (snd (accY ! i)). s = None) \<longrightarrow>
            device_means accY ! i = NaN \<and>
            Inr (ref_x (self_y_ref_source st'), ref_y (self_y_ref_source st')) =
              reference_curve (take i (self_z st) @ drop (Suc i) (self_z st))
                (take i accY @ drop (Suc i) accY))"
proof -
  note fin = update_completes [OF assms(1,2,3)]
  have x: "reference_curve (self_z st) accX =
      Inr (ref_x (self_x_ref_source st'), ref_y (self_x_ref_source st'))"
    using fin assms(4) by simp
  have y: "reference_curve (self_z st) accY =
      Inr (ref_x (self_y_ref_source st'), ref_y (self_y_ref_source st'))"
    using fin assms(5) by simp
  show ?thesis
    using x y reference_curve_delete [of i accX "self_z st"]
      reference_curve_delete [of i accY "self_z st"]
    by (auto simp: device_means_all_missing)
qed

theorem all_missing_device_dropped_witness:
  "update capturing_display (Inr cycle2) (Inr (Some (Fin 0))) =
     (None, snd (update capturing_display (Inr cycle2) (Inr (Some (Fin 0))))) \<and>
   self_collecting_reference capturing_display \<and>
   self_reference_count capturing_display = 1 \<and>
   snd (append_samples (self_reference_measurements_X capturing_display) (vals_X cycle2)) ! 1 =
     (''d1'', [None, None]) \<and>
   ref_x (self_x_ref_source (snd (update capturing_display (Inr cycle2) (Inr (Some (Fin 0)))))) = [0, 2] \<and>
   ref_y (self_x_ref_source (snd (update capturing_display (Inr cycle2) (Inr (Some (Fin 0)))))) =
     [Fin 2, Fin 4] \<and>
   reference_curve [0, 2] [(''d0'', [Some (Fin 1), Some (Fin 3)]), (''d2'', [Some (Fin 3), Some (Fin 5)])] =
     Inr ([0, 2], [Fin 2, Fin 4])"
  using all_missing_device_dropped
    [of capturing_display cycle2 "Inr (Some (Fin 0))"
        "snd (update capturing_display (Inr cycle2) (Inr (Some (Fin 0))))"
        "snd (append_samples (self_reference_measurements_X capturing_display) (vals_X cycle2))"
        "snd (append_samples (self_reference_measurements_Y capturing_display) (vals_Y cycle2))"
        1]
  by (simp add: update_capturing_display)
     (simp add: capturing_display_eq cycle2_def)

text \<open>
  Claim C1. The scenario: the display is built on three devices at z = 0, 1, 2 with a
  capture target of 2, the reference button is pressed, and two updates feed the X values
  1, missing, 3 and then 3, missing, 5. Both updates succeed and the X reference curve
  published by the second has the positions 0, 2 and the values 2, 4. In general, for an
  update that completes a capture on a table with a position for each device, the
  published curve is the list of (position, mean) pairs in row order without those whose
  mean is not-a-number; the mean of a device is \<^verbatim>\<open>np.mean\<close> of its samples that are not
  \<^verbatim>\<open>None\<close>, and \<^verbatim>\<open>np.mean\<close> of numbers is their sum divided by their count.
\<close>

theorem reference_capture_scenario:
  "\<not> isl (init (example_args 2)) \<and>
   self_z (projr (init (example_args 2))) = [0, 1, 2] \<and>
   self_reference_n (projr (init (example_args 2))) = 2 \<and>
   fst (update (collect_reference (projr (init (example_args 2)))) (Inr cycle1) (Inr (Some (Fin 0))))
     = None \<and>
   fst (update capturing_display (Inr cycle2) (Inr (Some (Fin 0)))) = None \<and>
   ref_x (self_x_ref_source (snd (update capturing_display (Inr cycle2) (Inr (Some (Fin 0))))))
     = [0, 2] \<and>
   ref_y (self_x_ref_source (snd (update capturing_display (Inr cycle2) (Inr (Some (Fin 0))))))
     = [Fin 2, Fin 4] \<and>
   (update st (Inr vals) cpoll = (None, st') \<and> self_collecting_reference st \<and>
    self_reference_count st = 1 \<and>
    length (self_reference_measurements_X st) \<le> length (self_z st) \<and>
    acc = snd (append_samples (self_reference_measurements_X st) (vals_X vals)) \<longrightarrow>
      ref_x (self_x_ref_source st') =
        map fst (filter (\<lambda>p. snd p \<noteq> NaN) (zip (self_z st) (device_means acc))) \<and>
      ref_y (self_x_ref_source st') =
        map snd (filter (\<lambda>p. snd p \<noteq> NaN) (zip (self_z st) (device_means acc))) \<and>
      (\<forall>i<length acc. device_means acc ! i = np_mean (not_none (snd (acc ! i))))) \<and>
   map Some (not_none ss) = filter (\<lambda>s. s \<noteq> None) ss \<and>
   np_mean (map Fin xs) = (if xs = [] then NaN else Fin (sum_list xs / real (length xs)))"
proof -
  have scen: "\<not> isl (init (example_args 2)) \<and>
   self_z (projr (init (example_args 2))) = [0, 1, 2] \<and>
   self_reference_n (projr (init (example_args 2))) = 2"
    by (simp add: init_example_args)
  have c1: "fst (update (collect_reference (projr (init (example_args 2)))) (Inr cycle1) (Inr (Some (Fin 0))))
     = None"
    by (simp add: init_example_args collect_reference_def update_def
      choose_color_def color_index_def collect_step_def cycle1_def publish_def Let_def)
  have c2: "fst (update capturing_display (Inr cycle2) (Inr (Some (Fin 0)))) = None \<and>
   ref_x (self_x_ref_source (snd (update capturing_display (Inr cycle2) (Inr (Some (Fin 0))))))
     = [0, 2] \<and>
   ref_y (self_x_ref_source (snd (update capturing_display (Inr cycle2) (Inr (Some (Fin 0))))))
     = [Fin 2, Fin 4]"
    by (simp add: update_capturing_display)
  have gen: "update st (Inr vals) cpoll = (None, st') \<and> self_collecting_reference st \<and>
    self_reference_count st = 1 \<and>
    length (self_reference_measurements_X st) \<le> length (self_z st) \<and>
    acc = snd (append_samples (self_reference_measurements_X st) (vals_X vals)) \<longrightarrow>
      ref_x (self_x_ref_source st') =
        map fst (filter (\<lambda>p. snd p \<noteq> NaN) (zip (self_z st) (device_means acc))) \<and>
      ref_y (self_x_ref_source st') =
        map snd (filter (\<lambda>p. snd p \<noteq> NaN) (zip (self_z st) (device_means acc))) \<and>
      (\<forall>i<length acc. device_means acc ! i = np_mean (not_none (snd (acc ! i))))"
  proof (intro impI, elim conjE)
    assume u: "update st (Inr vals) cpoll = (None, st')"
      and c: "self_collecting_reference st" and n: "self_reference_count st = 1"
      and l: "length (self_reference_measurements_X st) \<le> length (self_z st)"
      and a: "acc = snd (append_samples (self_reference_measurements_X st) (vals_X vals))"
    have la: "length acc \<le> length (self_z st)"
      using l a by (simp add: append_samples_length)
    have "reference_curve (self_z st) acc =
        Inr (ref_x (self_x_ref_source st'), ref_y (self_x_ref_source st'))"
      using update_completes [OF u c n] a by simp
    with reference_curve_zip [OF la]
    show "ref_x (self_x_ref_source st') =
        map fst (filter (\<lambda>p. snd p \<noteq> NaN) (zip (self_z st) (device_means acc))) \<and>
      ref_y (self_x_ref_source st') =
        map snd (filter (\<lambda>p. snd p \<noteq> NaN) (zip (self_z st) (device_means acc))) \<and>
      (\<forall>i<length acc. device_means acc ! i = np_mean (not_none (snd (acc ! i))))"
      by (simp add: device_means_nth)
  qed
  show ?thesis
    using scen c1 c2 gen not_none_filter [of ss] np_mean_Fin [of xs] by blast
qed

theorem reference_capture_scenario_witness:
  "update capturing_display (Inr cycle2) (Inr (Some (Fin 0))) =
     (None, snd (update capturing_display (Inr cycle2) (Inr (Some (Fin 0))))) \<and>
   self_collecting_reference capturing_display \<and>
   self_reference_count capturing_display = 1 \<and>
   length (self_reference_measurements_X capturing_display) \<le> length (self_z capturing_display) \<and>
   snd (append_samples (self_reference_measurements_X capturing_display) (vals_X cycle2)) =
     [(''d0'', [Some (Fin 1), Some (Fin 3)]), (''d1'', [None, None]),
      (''d2'', [Some (Fin 3), Some (Fin 5)])] \<and>
   device_means [(''d0'', [Some (Fin 1), Some (Fin 3)]), (''d1'', [None, None]),
      (''d2'', [Some (Fin 3), Some (Fin 5)])] = [Fin 2, NaN, Fin 4] \<and>
   ref_x (self_x_ref_source (snd (update capturing_display (Inr cycle2) (Inr (Some (Fin 0))))))
     = map fst [(0, Fin 2), (2, Fin 4)]"
  using reference_capture_scenario
    [where st = capturing_display and vals = cycle2 and cpoll = "Inr (Some (Fin 0))"
       and st' = "snd (update capturing_display (Inr cycle2) (Inr (Some (Fin 0))))"
       and acc = "[(''d0'', [Some (Fin 1), Some (Fin 3)]), (''d1'', [None, None]),
                   (''d2'', [Some (Fin 3), Some (Fin 5)])]"]
  by (simp add: update_capturing_display)
     (simp add: capturing_display_eq cycle2_def device_means_def np_mean_def)

section \<open>A failing update\<close>

text \<open>
  Claim C9, as stated, fails. The countdown, the accumulators, the flag and the reference
  curve are assigned before the last statements that can raise. On the capturing display,
  after the table has been replaced by one without devices, the next update completes the
  capture (flag cleared, countdown back at 2, line colour set) and then raises
  \<^verbatim>\<open>ValueError\<close> at \<^verbatim>\<open>min(x)\<close>.
\<close>

theorem update_fails_after_mutation_counterexample:
  "self_collecting_reference (update_table capturing_display no_devices) \<and>
   self_reference_count (update_table capturing_display no_devices) = 1 \<and>
   self_x_ref_line_color (update_table capturing_display no_devices) = None \<and>
   fst (update (update_table capturing_display no_devices) (Inr no_readings) (Inr (Some (Fin 0))))
     = Some ValueError \<and>
   \<not> self_collecting_reference
       (snd (update (update_table capturing_display no_devices) (Inr no_readings) (Inr (Some (Fin 0))))) \<and>
   self_reference_count
       (snd (update (update_table capturing_display no_devices) (Inr no_readings) (Inr (Some (Fin 0))))) = 2 \<and>
   self_x_ref_line_color
       (snd (update (update_table capturing_display no_devices) (Inr no_readings) (Inr (Some (Fin 0)))))
     = Some ''red''"
  by (simp add: capturing_display_eq update_table_def no_devices_def no_readings_def
      empty_measurements_def update_def choose_color_def color_index_def collect_step_def
      publish_def finish_reference_def reference_curve_def device_means_def
      clear_measurements_def Let_def)

lemma collect_step_idle:
  "\<not> self_collecting_reference st \<Longrightarrow> collect_step st vals color = (None, st)"
  by (simp add: collect_step_def)

lemma publish_failed: "fst (publish st vals colors) \<noteq> None \<Longrightarrow> snd (publish st vals colors) = st"
  by (auto simp: publish_def Let_def split: if_splits)

text \<open>
  Claim C9, amended. An update that fails in the fetch of the device values, in the fetch
  of the colour signal or in the colour binning, and any failing update made while no
  reference is being collected, returns its error with the state unchanged: both fetches
  come before every assignment.
\<close>

theorem failed_update_before_capture_keeps_state:
  "(vpoll = Inl e \<longrightarrow> update st vpoll cpoll = (Some e, st)) \<and>
   (vpoll = Inr vals \<and> self_color_monitor st = Attr (Some mon) \<and> cpoll = Inl e \<longrightarrow>
      update st vpoll cpoll = (Some e, st)) \<and>
   (vpoll = Inr vals \<and> choose_color st cpoll (length (vals_X vals)) = Inl e \<longrightarrow>
      update st vpoll cpoll = (Some e, st)) \<and>
   (\<not> self_collecting_reference st \<and> fst (update st vpoll cpoll) \<noteq> None \<longrightarrow>
      snd (update st vpoll cpoll) = st)"
proof (intro conjI impI)
  assume "vpoll = Inl e"
  then show "update st vpoll cpoll = (Some e, st)" by (simp add: update_def)
next
  assume "vpoll = Inr vals \<and> self_color_monitor st = Attr (Some mon) \<and> cpoll = Inl e"
  then show "update st vpoll cpoll = (Some e, st)"
    by (simp add: update_def choose_color_def)
next
  assume "vpoll = Inr vals \<and> choose_color st cpoll (length (vals_X vals)) = Inl e"
  then show "update st vpoll cpoll = (Some e, st)" by (simp add: update_def)
next
  assume a: "\<not> self_collecting_reference st \<and> fst (update st vpoll cpoll) \<noteq> None"
  show "snd (update st vpoll cpoll) = st"
  proof (cases vpoll)
    case (Inl e')
    then show ?thesis by (simp add: update_def)
  next
    case (Inr vs)
    show ?thesis
    proof (cases "choose_color st cpoll (length (vals_X vs))")
      case (Inl e')
      with Inr show ?thesis by (simp add: update_def)
    next
      case r: (Inr cc)
      obtain c cs where cc: "cc = (c, cs)" by (cases cc)
      have u: "update st vpoll cpoll = publish st vs cs"
        using Inr r cc a by (simp add: update_def collect_step_idle)
      with a publish_failed show ?thesis by simp
    qed
  qed
qed

theorem failed_update_before_capture_keeps_state_witness:
  "update capturing_display (Inl (SourceError ''timeout'')) (Inr None) =
     (Some (SourceError ''timeout''), capturing_display) \<and>
   update capturing_display (Inr cycle2) (Inl (SourceError ''timeout'')) =
     (Some (SourceError ''timeout''), capturing_display) \<and>
   choose_color capturing_display (Inr None) (length (vals_X cycle2)) = Inl TypeError \<and>
   update capturing_display (Inr cycle2) (Inr None) = (Some TypeError, capturing_display) \<and>
   \<not> self_collecting_reference (projr (init (example_args 2))) \<and>
   fst (update (projr (init (example_args 2))) (Inr no_readings) (Inr (Some (Fin 0)))) = Some ValueError \<and>
   snd (update (projr (init (example_args 2))) (Inr no_readings) (Inr (Some (Fin 0)))) =
     projr (init (example_args 2))"
  using failed_update_before_capture_keeps_state
      [where vpoll = "Inl (SourceError ''timeout'')" and e = "SourceError ''timeout''"
         and st = capturing_display and cpoll = "Inr None"]
    failed_update_before_capture_keeps_state
      [where vpoll = "Inr cycle2" and vals = cycle2 and e = "SourceError ''timeout''"
         and st = capturing_display and cpoll = "Inl (SourceError ''timeout'')"
         and mon = "''signal''"]
    failed_update_before_capture_keeps_state
      [where vpoll = "Inr cycle2" and vals = cycle2 and e = TypeError
         and st = capturing_display and cpoll = "Inr None"]
    failed_update_before_capture_keeps_state
      [where vpoll = "Inr no_readings" and st = "projr (init (example_args 2))"
         and cpoll = "Inr (Some (Fin 0))"]
  by (simp add: init_example_args)
     (simp add: capturing_display_eq choose_color_def color_index_def update_def
        collect_step_def publish_def no_readings_def Let_def)

end
